theory Spec2Isabelle
  imports Main "HOL-Library.Word"
begin

section \<open>Version information registry and reporter (src/mongo/util/version.cpp)\<close>

subsection \<open>Providers\<close>

text \<open>
  A C++ \<open>int\<close> is a 32-bit two's complement value; \<open>sint\<close> reads it.
\<close>

type_synonym cint = "32 word"

text \<open>
  \<open>VersionInfoInterface::BuildInfoField\<close>: the loop of \<open>appendBuildInfo\<close> and the filter of
  \<open>logBuildInfo\<close> read its members \<open>key\<close>, \<open>value\<close> and \<open>inBuildInfo\<close> (the member
  \<open>value\<close> is named \<open>value_str\<close> here).
\<close>

record BuildInfoField =
  key :: string
  value_str :: string
  inBuildInfo :: bool

text \<open>
  A provider object, given by what its virtual accessors return. The accessors are
  \<open>const\<close>; an object is the tuple of their results.
\<close>

record VersionInfo =
  majorVersion :: cint
  minorVersion :: cint
  patchVersion :: cint
  extraVersion :: cint
  version :: string
  gitVersion :: string
  modules :: "string list"
  allocator :: string
  jsEngine :: string
  targetMinOS :: string
  buildInfo :: "BuildInfoField list"

text \<open>\<open>class FallbackVersionInfo\<close>: every accessor returns a constant.\<close>

definition FallbackVersionInfo :: VersionInfo where
  "FallbackVersionInfo =
     \<lparr> majorVersion = 0, minorVersion = 0, patchVersion = 0, extraVersion = 0,
       version = ''unknown'', gitVersion = ''none'', modules = [''unknown''],
       allocator = ''unknown'', jsEngine = ''unknown'', targetMinOS = ''unknown'',
       buildInfo = [] \<rparr>"

subsection \<open>Log records\<close>

datatype LogSeverity = Info | Severe

subsection \<open>Structured documents\<close>

text \<open>
  The values a \<open>BSONObjBuilder\<close> receives in this file: strings, 32-bit integers, booleans,
  arrays and nested documents. A document is the sequence of its fields in append order;
  the builder does not look for duplicate keys.
\<close>

datatype BSONValue =
    BSON_String string
  | BSON_NumberInt cint
  | BSON_Bool bool
  | BSON_Array "BSONValue list"
  | BSON_Object "(string \<times> BSONValue) list"

type_synonym BSONObj = "(string \<times> BSONValue) list"

definition append :: "string \<Rightarrow> BSONValue \<Rightarrow> BSONObj \<Rightarrow> BSONObj" where
  "append k v b = b @ [(k, v)]"

text \<open>
  An attribute of a log record (\<open>logv2::DynamicAttributes::add\<close>): a string, a sequence of
  strings, or a sequence of documents (\<open>logv2::seqLog\<close> over a range).
\<close>

datatype LogAttr =
    Attr_String string
  | Attr_StringSeq "string list"
  | Attr_ObjSeq "BSONObj list"

record LogEntry =
  severity :: LogSeverity
  log_id :: nat
  message :: string
  attrs :: "(string \<times> LogAttr) list"

text \<open>
  Modelled from the spec: the macros \<open>LOGV2\<close> and \<open>LOGV2_FATAL\<close> of mongo/logv2/log.h are
  not part of this file. Each emits one record, with its id, message and attributes, to the
  log sink; \<open>LOGV2_FATAL\<close> emits the diagnostic at the highest severity. The sink is
  the list of the records emitted so far.
\<close>

definition LOGV2 :: "nat \<Rightarrow> string \<Rightarrow> (string \<times> LogAttr) list \<Rightarrow> LogEntry list \<Rightarrow> LogEntry list" where
  "LOGV2 n msg as sink = sink @ [\<lparr> severity = Info, log_id = n, message = msg, attrs = as \<rparr>]"

definition LOGV2_FATAL :: "nat \<Rightarrow> string \<Rightarrow> LogEntry list \<Rightarrow> LogEntry list" where
  "LOGV2_FATAL n msg sink = sink @ [\<lparr> severity = Severe, log_id = n, message = msg, attrs = [] \<rparr>]"

subsection \<open>The registry\<close>

text \<open>
  Provider objects live in memory; the address of an object is its index in \<open>heap\<close>, and
  \<open>new\<close> places an object at the next free address. A pointer is an address or null
  (\<open>None\<close>). The process state holds the file-level pointer \<open>globalVersionInfo\<close>
  (initially \<open>nullptr\<close>), the function-local static reference \<open>fallbackVersionInfo\<close> of
  \<open>instance\<close> (\<open>None\<close> until its declaration has been executed once), and the log sink.
\<close>

type_synonym addr = nat

record process =
  heap :: "VersionInfo list"
  globalVersionInfo :: "addr option"
  fallbackVersionInfo :: "addr option"
  logged :: "LogEntry list"

datatype NotEnabledAction = kFallback | kFatal

text \<open>
  A call either returns a value or terminates the process. Modelled from the spec:
  \<open>fassertFailed\<close> of mongo/util/assert_util.h is not part of this file; it terminates the
  process with the given code and does not return.
\<close>

datatype 'a outcome = Returns 'a | Terminated nat

definition enable :: "addr option \<Rightarrow> process \<Rightarrow> process" where
  "enable handler st = st\<lparr> globalVersionInfo := handler \<rparr>"

definition "instance" :: "NotEnabledAction \<Rightarrow> process \<Rightarrow> addr outcome \<times> process" where
  "instance action st =
     (case globalVersionInfo st of
        Some a \<Rightarrow> (Returns a, st)
      | None \<Rightarrow>
          if action = kFallback then
            (case fallbackVersionInfo st of
               Some f \<Rightarrow> (Returns f, st)
             | None \<Rightarrow>
                 (Returns (length (heap st)),
                  st\<lparr> heap := heap st @ [FallbackVersionInfo],
                      fallbackVersionInfo := Some (length (heap st)) \<rparr>))
          else
            (Terminated 40278,
             st\<lparr> logged := LOGV2_FATAL 23405
                  ''Terminating because valid version info has not been configured''
                  (logged st) \<rparr>))"

text \<open>
  A host program's use of the registry: a sequence of \<open>enable\<close> and \<open>instance\<close> calls.
  Running it collects what each \<open>instance\<close> call gave; nothing runs after the process has
  terminated.
\<close>

datatype operation = Enable "addr option" | Instance NotEnabledAction

fun run :: "operation list \<Rightarrow> process \<Rightarrow> addr outcome list \<times> process" where
  "run [] st = ([], st)"
| "run (Enable handler # ops) st = run ops (enable handler st)"
| "run (Instance action # ops) st =
     (case instance action st of
        (Returns a, st') \<Rightarrow> (case run ops st' of (rs, st'') \<Rightarrow> (Returns a # rs, st''))
      | (Terminated c, st') \<Rightarrow> ([Terminated c], st'))"

subsection \<open>The version comparator\<close>

definition isdigit :: "char \<Rightarrow> bool" where
  "isdigit c = (let n = (of_char c :: nat) in 48 \<le> n \<and> n \<le> 57)"

text \<open>
  Modelled from the spec: the matcher \<open>pcrecpp::RE\<close> comes from a library outside this
  file. For the pattern of the source, \<open>^(\d+)\.(\d+)\.\<close>, a match exists only at the
  start of the text: a longest run of digits that is not empty, a dot, a second such run,
  a dot. (A shorter run of digits is followed by a digit, not by a dot, so the longest run
  is the only candidate.) The result is the text of the two groups.
\<close>

definition ver_regex :: "string \<Rightarrow> (string \<times> string) option" where
  "ver_regex text =
     (let g1 = takeWhile isdigit text; rest1 = dropWhile isdigit text in
      if g1 = [] then None
      else case rest1 of
        [] \<Rightarrow> None
      | c # rest2 \<Rightarrow>
          if c \<noteq> CHR ''.'' then None
          else
            (let g2 = takeWhile isdigit rest2; rest3 = dropWhile isdigit rest2 in
             if g2 = [] then None
             else case rest3 of
               [] \<Rightarrow> None
             | d # _ \<Rightarrow> if d = CHR ''.'' then Some (g1, g2) else None))"

text \<open>The number a run of decimal digits denotes.\<close>

definition digit_val :: "char \<Rightarrow> int" where
  "digit_val c = int (of_char c) - 48"

definition decimal :: "string \<Rightarrow> int" where
  "decimal ds = foldl (\<lambda>acc c. 10 * acc + digit_val c) 0 ds"

definition INT_MAX :: int where
  "INT_MAX = 2147483647"

text \<open>
  Modelled from the spec: the library stores a group into an \<open>int*\<close> argument by
  converting its digits in base 10 and refusing a number that does not fit an \<open>int\<close>; a
  refused conversion writes nothing.
\<close>

definition parse_int :: "string \<Rightarrow> cint option" where
  "parse_int g = (let r = decimal g in if r > INT_MAX then None else Some (word_of_int r))"

text \<open>
  \<open>PartialMatch(text, &major, &minor)\<close>: the groups are converted and stored one after the
  other, and the first group that cannot be converted ends the call. The pair is the
  content of the two \<open>int\<close> variables, before and after.
\<close>

definition PartialMatch :: "string \<Rightarrow> cint \<times> cint \<Rightarrow> bool \<times> (cint \<times> cint)" where
  "PartialMatch text args =
     (case ver_regex text of
        None \<Rightarrow> (False, args)
      | Some (g1, g2) \<Rightarrow>
          (case parse_int g1 of
             None \<Rightarrow> (False, args)
           | Some a \<Rightarrow>
               (case parse_int g2 of
                  None \<Rightarrow> (False, (a, snd args))
                | Some b \<Rightarrow> (True, (a, b)))))"

definition isSameMajorVersion :: "VersionInfo \<Rightarrow> string \<Rightarrow> bool" where
  "isSameMajorVersion p otherVersion =
     (case snd (PartialMatch otherVersion (- 1, - 1)) of
        (major, minor) \<Rightarrow>
          if major = - 1 \<or> minor = - 1 then False
          else (major = majorVersion p \<and> minor = minorVersion p))"

subsection \<open>Version strings\<close>

text \<open>
  A \<open>std::stringstream\<close> is the text written to it so far: \<open>ss_write\<close> is \<open>operator<<\<close>,
  \<open>ss_str\<close> is \<open>str()\<close>.
\<close>

type_synonym stringstream = string

definition ss_new :: stringstream where
  "ss_new = []"

definition ss_write :: "stringstream \<Rightarrow> string \<Rightarrow> stringstream" where
  "ss_write ss s = ss @ s"

definition ss_str :: "stringstream \<Rightarrow> string" where
  "ss_str ss = ss"

definition makeVersionString :: "VersionInfo \<Rightarrow> string \<Rightarrow> string" where
  "makeVersionString p binaryName =
     ss_str (ss_write (ss_write (ss_write ss_new binaryName) '' v'') (version p))"

definition mongoShellVersion :: "VersionInfo \<Rightarrow> string" where
  "mongoShellVersion provider =
     ss_str (ss_write (ss_write ss_new ''MongoDB shell version v'') (version provider))"

definition mongosVersion :: "VersionInfo \<Rightarrow> string" where
  "mongosVersion provider =
     ss_str (ss_write (ss_write ss_new ''mongos version v'') (version provider))"

definition mongodVersion :: "VersionInfo \<Rightarrow> string" where
  "mongodVersion provider =
     ss_str (ss_write (ss_write ss_new ''db version v'') (version provider))"

subsection \<open>The build configuration\<close>

text \<open>
  What the preprocessor and the headers fix for one binary: whether \<open>_WIN32\<close> is defined,
  whether \<open>MONGO_CONFIG_SSL\<close> is defined and with which \<open>MONGO_CONFIG_SSL_PROVIDER\<close>
  (any other provider stops the build at \<open>#error\<close>, so no binary has one), the text of
  the macro \<open>OPENSSL_VERSION_TEXT\<close>, the text \<open>SSLeay_version(SSLEAY_VERSION)\<close> returns,
  the size of a pointer, \<open>kDebugBuild\<close> and \<open>BSONObjMaxUserSize\<close>. The calls
  \<open>openSSLVersion()\<close> of this file pass no arguments: the default values of \<open>prefix\<close> and
  \<open>suffix\<close> are in the declaration in version.h, outside this file, and are parameters
  here.
\<close>

datatype SSL_PROVIDER =
    MONGO_CONFIG_SSL_PROVIDER_OPENSSL
  | MONGO_CONFIG_SSL_PROVIDER_WINDOWS
  | MONGO_CONFIG_SSL_PROVIDER_APPLE

record build_config =
  WIN32 :: bool
  MONGO_CONFIG_SSL :: "SSL_PROVIDER option"
  OPENSSL_VERSION_TEXT :: string
  SSLeay_version :: string
  default_prefix :: string
  default_suffix :: string
  sizeof_void_ptr :: cint
  kDebugBuild :: bool
  BSONObjMaxUserSize :: cint

definition openSSLVersion :: "build_config \<Rightarrow> string \<Rightarrow> string \<Rightarrow> string" where
  "openSSLVersion cfg prefix suffix =
     (if MONGO_CONFIG_SSL cfg \<noteq> Some MONGO_CONFIG_SSL_PROVIDER_OPENSSL then []
      else prefix @ SSLeay_version cfg @ suffix)"

subsection \<open>The structured report\<close>

text \<open>The loop over \<open>buildInfo()\<close> that fills the \<open>buildEnvironment\<close> builder.\<close>

fun append_env :: "BuildInfoField list \<Rightarrow> BSONObj \<Rightarrow> BSONObj" where
  "append_env [] env = env"
| "append_env (e # es) env =
     append_env es (if inBuildInfo e then append (key e) (BSON_String (value_str e)) env else env)"

definition opensslInfo :: "build_config \<Rightarrow> BSONObj" where
  "opensslInfo cfg =
     (case MONGO_CONFIG_SSL cfg of
        Some MONGO_CONFIG_SSL_PROVIDER_OPENSSL \<Rightarrow>
          append ''compiled'' (BSON_String (OPENSSL_VERSION_TEXT cfg))
            (append ''running''
               (BSON_String (openSSLVersion cfg (default_prefix cfg) (default_suffix cfg))) [])
      | Some MONGO_CONFIG_SSL_PROVIDER_WINDOWS \<Rightarrow>
          append ''running'' (BSON_String ''Windows SChannel'') []
      | Some MONGO_CONFIG_SSL_PROVIDER_APPLE \<Rightarrow>
          append ''running'' (BSON_String ''Apple Secure Transport'') []
      | None \<Rightarrow>
          append ''compiled'' (BSON_String ''disabled'')
            (append ''running'' (BSON_String ''disabled'') []))"

definition appendBuildInfo :: "build_config \<Rightarrow> VersionInfo \<Rightarrow> BSONObj \<Rightarrow> BSONObj" where
  "appendBuildInfo cfg p result =
     (let r1 = append ''version'' (BSON_String (version p)) result;
          r2 = append ''gitVersion'' (BSON_String (gitVersion p)) r1;
          r3 = (if WIN32 cfg then append ''targetMinOS'' (BSON_String (targetMinOS p)) r2 else r2);
          r4 = append ''modules'' (BSON_Array (map BSON_String (modules p))) r3;
          r5 = append ''allocator'' (BSON_String (allocator p)) r4;
          r6 = append ''javascriptEngine'' (BSON_String (jsEngine p)) r5;
          r7 = append ''sysInfo'' (BSON_String ''deprecated'') r6;
          versionArray = [BSON_NumberInt (majorVersion p), BSON_NumberInt (minorVersion p),
                          BSON_NumberInt (patchVersion p), BSON_NumberInt (extraVersion p)];
          r8 = append ''versionArray'' (BSON_Array versionArray) r7;
          r9 = append ''openssl'' (BSON_Object (opensslInfo cfg)) r8;
          env = append_env (buildInfo p) [];
          r10 = append ''buildEnvironment'' (BSON_Object env) r9;
          r11 = append ''bits'' (BSON_NumberInt (sizeof_void_ptr cfg * 8)) r10;
          r12 = append ''debug'' (BSON_Bool (kDebugBuild cfg)) r11
      in append ''maxBsonObjectSize'' (BSON_NumberInt (BSONObjMaxUserSize cfg)) r12)"

subsection \<open>The log records\<close>

definition logTargetMinOS :: "VersionInfo \<Rightarrow> LogEntry list \<Rightarrow> LogEntry list" where
  "logTargetMinOS p sink =
     LOGV2 23398 ''Target operating system minimum version''
       [(''targetMinOS'', Attr_String (targetMinOS p))] sink"

definition envFilter :: "BuildInfoField \<Rightarrow> bool" where
  "envFilter bi = (inBuildInfo bi \<and> value_str bi \<noteq> [])"

definition envFormatter :: "BuildInfoField \<Rightarrow> BSONObj" where
  "envFormatter bi = append (key bi) (BSON_String (value_str bi)) []"

definition logBuildInfo :: "build_config \<Rightarrow> VersionInfo \<Rightarrow> LogEntry list \<Rightarrow> LogEntry list" where
  "logBuildInfo cfg p sink =
     (let a1 = [(''version'', Attr_String (version p))];
          a2 = a1 @ [(''gitVersion'', Attr_String (gitVersion p))];
          a3 = (if MONGO_CONFIG_SSL cfg = Some MONGO_CONFIG_SSL_PROVIDER_OPENSSL
                then a2 @ [(''openSSLVersion'',
                            Attr_String (openSSLVersion cfg (default_prefix cfg) (default_suffix cfg)))]
                else a2);
          a4 = a3 @ [(''allocator'', Attr_String (allocator p))];
          a5 = a4 @ [(''modules'', Attr_StringSeq (modules p))];
          build = buildInfo p;
          buildEnv = map envFormatter (filter envFilter build);
          a6 = a5 @ [(''environment'', Attr_ObjSeq buildEnv)]
      in LOGV2 23403 ''Build Info'' a6 sink)"

section \<open>Properties\<close>

subsection \<open>The registry\<close>

lemma instance_enabled:
  "globalVersionInfo st = Some a \<Longrightarrow> instance action st = (Returns a, st)"
  by (simp add: instance_def)

lemma run_instances_enabled:
  "globalVersionInfo st = Some a \<Longrightarrow>
   run (map Instance actions) st = (map (\<lambda>_. Returns a) actions, st)"
  by (induction actions) (simp_all add: instance_enabled)

text \<open>
  C2. After \<open>enable(P)\<close> with a provider \<open>P\<close> (a pointer that is not null), every later call
  of \<open>instance\<close>, whatever its policy, returns the address \<open>P\<close> itself and leaves the
  process state as it is; this holds for any number of calls, until another \<open>enable\<close>
  replaces the provider, after which the calls return the new one.
\<close>

theorem enable_then_instance_identity:
  "run (map Instance actions) (enable (Some P) st)
     = (map (\<lambda>_. Returns P) actions, enable (Some P) st)
   \<and> instance action (enable (Some P) st) = (Returns P, enable (Some P) st)
   \<and> run (map Instance actions) (enable (Some Q) (enable (Some P) st))
       = (map (\<lambda>_. Returns Q) actions, enable (Some Q) (enable (Some P) st))"
  by (simp add: run_instances_enabled instance_enabled enable_def)

lemma instance_fallback_created:
  "globalVersionInfo st = None \<Longrightarrow> fallbackVersionInfo st = Some f \<Longrightarrow>
   instance kFallback st = (Returns f, st)"
  by (simp add: instance_def)

lemma run_fallback_created:
  "globalVersionInfo st = None \<Longrightarrow> fallbackVersionInfo st = Some f \<Longrightarrow>
   run (replicate n (Instance kFallback)) st = (replicate n (Returns f), st)"
  by (induction n) (simp_all add: instance_fallback_created)

lemma instance_fallback_first:
  "globalVersionInfo st = None \<Longrightarrow> fallbackVersionInfo st = None \<Longrightarrow>
   instance kFallback st =
     (Returns (length (heap st)),
      st\<lparr> heap := heap st @ [FallbackVersionInfo],
          fallbackVersionInfo := Some (length (heap st)) \<rparr>)"
  by (simp add: instance_def)

text \<open>
  C3. In a process where \<open>enable\<close> has not been called (the global pointer is null and the
  static fallback reference has not been initialised), any number of calls
  \<open>instance(kFallback)\<close> all return one and the same address: that of the single
  \<open>FallbackVersionInfo\<close> object the first call creates. Its accessors give the sentinels:
  the four version numbers are 0, \<open>version\<close> is "unknown", \<open>gitVersion\<close> is "none",
  \<open>modules\<close> is ["unknown"], \<open>allocator\<close>, \<open>jsEngine\<close> and \<open>targetMinOS\<close> are "unknown",
  and \<open>buildInfo\<close> is empty.
\<close>

theorem fallback_instance_shared:
  assumes "globalVersionInfo st = None" and "fallbackVersionInfo st = None"
  shows "run (replicate (Suc n) (Instance kFallback)) st =
           (replicate (Suc n) (Returns (length (heap st))),
            st\<lparr> heap := heap st @ [FallbackVersionInfo],
                fallbackVersionInfo := Some (length (heap st)) \<rparr>)
         \<and> heap (snd (run (replicate (Suc n) (Instance kFallback)) st)) ! length (heap st)
             = FallbackVersionInfo
         \<and> majorVersion FallbackVersionInfo = 0 \<and> minorVersion FallbackVersionInfo = 0
         \<and> patchVersion FallbackVersionInfo = 0 \<and> extraVersion FallbackVersionInfo = 0
         \<and> version FallbackVersionInfo = ''unknown'' \<and> gitVersion FallbackVersionInfo = ''none''
         \<and> modules FallbackVersionInfo = [''unknown'']
         \<and> allocator FallbackVersionInfo = ''unknown'' \<and> jsEngine FallbackVersionInfo = ''unknown''
         \<and> targetMinOS FallbackVersionInfo = ''unknown'' \<and> buildInfo FallbackVersionInfo = []"
proof -
  let ?st' = "st\<lparr> heap := heap st @ [FallbackVersionInfo],
                fallbackVersionInfo := Some (length (heap st)) \<rparr>"
  have g: "globalVersionInfo ?st' = None"
    and f: "fallbackVersionInfo ?st' = Some (length (heap st))"
    using assms by simp_all
  have r: "run (replicate (Suc n) (Instance kFallback)) st =
           (replicate (Suc n) (Returns (length (heap st))), ?st')"
    using assms by (simp add: instance_fallback_first run_fallback_created [OF g f])
  show ?thesis
    unfolding r by (simp add: FallbackVersionInfo_def)
qed

theorem fallback_instance_shared_witness:
  "globalVersionInfo \<lparr> heap = [], globalVersionInfo = None, fallbackVersionInfo = None, logged = [] \<rparr> = None
   \<and> fallbackVersionInfo \<lparr> heap = [], globalVersionInfo = None, fallbackVersionInfo = None, logged = [] \<rparr> = None
   \<and> run [Instance kFallback, Instance kFallback, Instance kFallback]
        \<lparr> heap = [], globalVersionInfo = None, fallbackVersionInfo = None, logged = [] \<rparr>
      = ([Returns 0, Returns 0, Returns 0],
         \<lparr> heap = [FallbackVersionInfo], globalVersionInfo = None,
           fallbackVersionInfo = Some 0, logged = [] \<rparr>)"
  using fallback_instance_shared
    [of "\<lparr> heap = [], globalVersionInfo = None, fallbackVersionInfo = None, logged = [] \<rparr>"
        "Suc (Suc 0)"]
  by simp

text \<open>
  C8. When no provider is registered, \<open>instance(kFatal)\<close> does not return: the call ends
  in the termination of the process (code 40278), after the diagnostic record 23405 has
  been appended to the log; no later operation of the program runs.
\<close>

theorem fatal_when_not_enabled:
  assumes "globalVersionInfo st = None"
  shows "instance kFatal st =
           (Terminated 40278,
            st\<lparr> logged := logged st @
                 [\<lparr> severity = Severe, log_id = 23405,
                    message = ''Terminating because valid version info has not been configured'',
                    attrs = [] \<rparr>] \<rparr>)
         \<and> fst (run (Instance kFatal # ops) st) = [Terminated 40278]"
  using assms by (simp add: instance_def LOGV2_FATAL_def)

theorem fatal_when_not_enabled_witness:
  "globalVersionInfo \<lparr> heap = [], globalVersionInfo = None, fallbackVersionInfo = None, logged = [] \<rparr> = None
   \<and> run [Instance kFatal, Instance kFallback]
        \<lparr> heap = [], globalVersionInfo = None, fallbackVersionInfo = None, logged = [] \<rparr>
      = ([Terminated 40278],
         \<lparr> heap = [], globalVersionInfo = None, fallbackVersionInfo = None,
           logged = [\<lparr> severity = Severe, log_id = 23405,
                       message = ''Terminating because valid version info has not been configured'',
                       attrs = [] \<rparr>] \<rparr>)"
  using fatal_when_not_enabled
    [of "\<lparr> heap = [], globalVersionInfo = None, fallbackVersionInfo = None, logged = [] \<rparr>"
        "[Instance kFallback]"]
  by simp

subsection \<open>Front-end version strings\<close>

text \<open>
  C10. For every provider \<open>p\<close>, \<open>mongoShellVersion\<close>, \<open>mongosVersion\<close> and \<open>mongodVersion\<close>
  return "MongoDB shell version v", "mongos version v" and "db version v", each followed
  by \<open>p.version()\<close>; the result depends on nothing else of \<open>p\<close>, and the functions read and
  change no state.
\<close>

theorem front_end_version_strings:
  "mongoShellVersion p = ''MongoDB shell version v'' @ version p
   \<and> mongosVersion p = ''mongos version v'' @ version p
   \<and> mongodVersion p = ''db version v'' @ version p"
  by (simp add: mongoShellVersion_def mongosVersion_def mongodVersion_def
      ss_new_def ss_write_def ss_str_def)

subsection \<open>No way back to the not-enabled state?\<close>

text \<open>
  \<open>enable\<close> stores whatever pointer it is given, and a null pointer is a value of its
  parameter type: after \<open>enable(P)\<close> and \<open>enable(nullptr)\<close> the registry is not enabled
  again. Here \<open>instance(kFallback)\<close> then creates and returns the fallback object (address
  1, not the provider at address 0), and \<open>instance(kFatal)\<close> terminates the process.
\<close>

theorem unregister_by_null_counterexample:
  "run [Enable (Some 0), Enable None, Instance kFallback, Instance kFatal]
       \<lparr> heap = [FallbackVersionInfo\<lparr> version := ''4.4.0'' \<rparr>],
         globalVersionInfo = None, fallbackVersionInfo = None, logged = [] \<rparr>
     = ([Returns 1, Terminated 40278],
        \<lparr> heap = [FallbackVersionInfo\<lparr> version := ''4.4.0'' \<rparr>, FallbackVersionInfo],
          globalVersionInfo = None, fallbackVersionInfo = Some 1,
          logged = [\<lparr> severity = Severe, log_id = 23405,
                      message = ''Terminating because valid version info has not been configured'',
                      attrs = [] \<rparr>] \<rparr>)"
  by (simp add: enable_def instance_def LOGV2_FATAL_def)

lemma run_enabled_inv:
  "Enable None \<notin> set ops \<Longrightarrow> globalVersionInfo st = Some a \<Longrightarrow>
   (\<exists>b. snd (run ops st) = st\<lparr> globalVersionInfo := Some b \<rparr>)
   \<and> length (fst (run ops st)) = length [x. Instance x \<leftarrow> ops]
   \<and> set (fst (run ops st)) \<subseteq> Returns ` insert a {Q. Enable (Some Q) \<in> set ops}"
proof (induction ops arbitrary: st a)
  case Nil
  have "st = st\<lparr> globalVersionInfo := Some a \<rparr>" using Nil by simp
  then show ?case by auto
next
  case (Cons op ops)
  show ?case
  proof (cases op)
    case (Enable h)
    with Cons.prems obtain q where h: "h = Some q" by (cases h) auto
    have g: "globalVersionInfo (enable (Some q) st) = Some q" by (simp add: enable_def)
    from Cons.prems have n: "Enable None \<notin> set ops" by simp
    from Cons.IH [OF n g] obtain b where
      s: "snd (run ops (enable (Some q) st))
            = (enable (Some q) st)\<lparr> globalVersionInfo := Some b \<rparr>"
      and l: "length (fst (run ops (enable (Some q) st))) = length [x. Instance x \<leftarrow> ops]"
      and r: "set (fst (run ops (enable (Some q) st)))
                \<subseteq> Returns ` insert q {Q. Enable (Some Q) \<in> set ops}"
      by blast
    have "snd (run (op # ops) st) = st\<lparr> globalVersionInfo := Some b \<rparr>"
      using s Enable h by (simp add: enable_def)
    moreover have "length (fst (run (op # ops) st)) = length [x. Instance x \<leftarrow> op # ops]"
      using l Enable h by simp
    moreover have "set (fst (run (op # ops) st))
        \<subseteq> Returns ` insert a {Q. Enable (Some Q) \<in> set (op # ops)}"
      using r Enable h by auto
    ultimately show ?thesis by blast
  next
    case (Instance x)
    from Cons.prems have n: "Enable None \<notin> set ops" by simp
    have i: "instance x st = (Returns a, st)" using Cons.prems(2) by (simp add: instance_def)
    from Cons.IH [OF n Cons.prems(2)] obtain b where
      s: "snd (run ops st) = st\<lparr> globalVersionInfo := Some b \<rparr>"
      and l: "length (fst (run ops st)) = length [x. Instance x \<leftarrow> ops]"
      and r: "set (fst (run ops st)) \<subseteq> Returns ` insert a {Q. Enable (Some Q) \<in> set ops}"
      by blast
    have "snd (run (op # ops) st) = st\<lparr> globalVersionInfo := Some b \<rparr>"
      using s Instance i by (cases "run ops st") simp
    moreover have "length (fst (run (op # ops) st)) = length [x. Instance x \<leftarrow> op # ops]"
      using l Instance i by (cases "run ops st") simp
    moreover have "set (fst (run (op # ops) st))
        \<subseteq> Returns ` insert a {Q. Enable (Some Q) \<in> set (op # ops)}"
      using r Instance i by (cases "run ops st") auto
    ultimately show ?thesis by blast
  qed
qed

text \<open>
  C9, amended. Once \<open>enable\<close> has been called with a provider that is not null, and as
  long as no later \<open>enable\<close> call passes a null pointer, \<open>instance\<close> never takes the
  not-configured branch: after any such sequence of operations the global pointer is not
  null, every \<open>instance\<close> call has returned (none terminated the process), each with a
  provider given to one of the \<open>enable\<close> calls, and no fallback object was created and
  no diagnostic logged.
\<close>

theorem enabled_stays_enabled:
  assumes "Enable None \<notin> set ops"
  shows "globalVersionInfo (snd (run (Enable (Some P) # ops) st)) \<noteq> None
         \<and> length (fst (run (Enable (Some P) # ops) st)) = length [x. Instance x \<leftarrow> ops]
         \<and> set (fst (run (Enable (Some P) # ops) st))
             \<subseteq> Returns ` insert P {Q. Enable (Some Q) \<in> set ops}
         \<and> heap (snd (run (Enable (Some P) # ops) st)) = heap st
         \<and> fallbackVersionInfo (snd (run (Enable (Some P) # ops) st)) = fallbackVersionInfo st
         \<and> logged (snd (run (Enable (Some P) # ops) st)) = logged st"
proof -
  have g: "globalVersionInfo (enable (Some P) st) = Some P" by (simp add: enable_def)
  from run_enabled_inv [OF assms g] obtain b where
    s: "snd (run ops (enable (Some P) st))
          = (enable (Some P) st)\<lparr> globalVersionInfo := Some b \<rparr>"
    and l: "length (fst (run ops (enable (Some P) st))) = length [x. Instance x \<leftarrow> ops]"
    and r: "set (fst (run ops (enable (Some P) st)))
              \<subseteq> Returns ` insert P {Q. Enable (Some Q) \<in> set ops}"
    by blast
  show ?thesis using s l r by (simp add: enable_def)
qed

theorem enabled_stays_enabled_witness:
  "Enable None \<notin> set [Instance kFatal, Enable (Some 1), Instance kFallback]
   \<and> run [Enable (Some 0), Instance kFatal, Enable (Some 1), Instance kFallback]
       \<lparr> heap = [FallbackVersionInfo\<lparr> version := ''4.4.0'' \<rparr>,
                 FallbackVersionInfo\<lparr> version := ''4.4.1'' \<rparr>],
         globalVersionInfo = None, fallbackVersionInfo = None, logged = [] \<rparr>
     = ([Returns 0, Returns 1],
        \<lparr> heap = [FallbackVersionInfo\<lparr> version := ''4.4.0'' \<rparr>,
                  FallbackVersionInfo\<lparr> version := ''4.4.1'' \<rparr>],
          globalVersionInfo = Some 1, fallbackVersionInfo = None, logged = [] \<rparr>)"
  using enabled_stays_enabled [of "[Instance kFatal, Enable (Some 1), Instance kFallback]" 0
      "\<lparr> heap = [FallbackVersionInfo\<lparr> version := ''4.4.0'' \<rparr>,
                FallbackVersionInfo\<lparr> version := ''4.4.1'' \<rparr>],
         globalVersionInfo = None, fallbackVersionInfo = None, logged = [] \<rparr>"]
  by (simp add: enable_def instance_def)

subsection \<open>The version comparator\<close>

lemma not_isdigit_dot: "\<not> isdigit CHR ''.''"
  by (simp add: isdigit_def)

lemma takeWhile_digits_dot:
  "list_all isdigit g \<Longrightarrow> takeWhile isdigit (g @ CHR ''.'' # rest) = g"
  by (induction g) (simp_all add: not_isdigit_dot)

lemma dropWhile_digits_dot:
  "list_all isdigit g \<Longrightarrow> dropWhile isdigit (g @ CHR ''.'' # rest) = CHR ''.'' # rest"
  by (induction g) (simp_all add: not_isdigit_dot)

text \<open>
  The matcher against the words of the specification: a text made of digits, a dot, digits,
  a dot and anything after it matches, with the two runs of digits as its groups; and a
  text that matches is made that way.
\<close>

lemma ver_regex_match:
  assumes "g1 \<noteq> []" "list_all isdigit g1" "g2 \<noteq> []" "list_all isdigit g2"
  shows "ver_regex (g1 @ ''.'' @ g2 @ ''.'' @ rest) = Some (g1, g2)"
  using assms by (simp add: ver_regex_def takeWhile_digits_dot dropWhile_digits_dot)

lemma list_all_takeWhile: "list_all P (takeWhile P xs)"
  by (induction xs) simp_all

lemma ver_regex_Some:
  assumes "ver_regex text = Some (g1, g2)"
  shows "\<exists>rest. text = g1 @ ''.'' @ g2 @ ''.'' @ rest \<and> g1 \<noteq> [] \<and> list_all isdigit g1
           \<and> g2 \<noteq> [] \<and> list_all isdigit g2"
proof -
  from assms obtain rest2 where a: "takeWhile isdigit text = g1" "g1 \<noteq> []"
      and b: "dropWhile isdigit text = CHR ''.'' # rest2"
      and r: "(let g2' = takeWhile isdigit rest2; rest3 = dropWhile isdigit rest2 in
             if g2' = [] then None
             else case rest3 of
               [] \<Rightarrow> None
             | d # _ \<Rightarrow> if d = CHR ''.'' then Some (g1, g2') else None) = Some (g1, g2)"
    by (auto simp: ver_regex_def Let_def split: if_splits list.splits)
  from r obtain rest4 where c: "takeWhile isdigit rest2 = g2" "g2 \<noteq> []"
      and d: "dropWhile isdigit rest2 = CHR ''.'' # rest4"
    by (auto simp: Let_def split: if_splits list.splits)
  have "text = takeWhile isdigit text @ dropWhile isdigit text" by simp
  also have "\<dots> = g1 @ CHR ''.'' # rest2" using a b by simp
  also have "rest2 = takeWhile isdigit rest2 @ dropWhile isdigit rest2" by simp
  also have "\<dots> = g2 @ CHR ''.'' # rest4" using c d by simp
  finally have "text = g1 @ ''.'' @ g2 @ ''.'' @ rest4" by simp
  moreover have "list_all isdigit g1" "list_all isdigit g2"
    using a c list_all_takeWhile by metis+
  ultimately show ?thesis using a c by blast
qed

lemma digit_val_nonneg: "isdigit c \<Longrightarrow> 0 \<le> digit_val c"
  by (simp add: isdigit_def digit_val_def Let_def)

lemma foldl_decimal_nonneg:
  "list_all isdigit ds \<Longrightarrow> 0 \<le> acc \<Longrightarrow> 0 \<le> foldl (\<lambda>acc c. 10 * acc + digit_val c) acc ds"
  by (induction ds arbitrary: acc) (simp_all add: digit_val_nonneg)

lemma decimal_nonneg: "list_all isdigit ds \<Longrightarrow> 0 \<le> decimal ds"
  by (simp add: decimal_def foldl_decimal_nonneg)

lemma sint_word_of_int_fits:
  assumes "0 \<le> r" "r \<le> INT_MAX"
  shows "sint (word_of_int r :: cint) = r"
  using assms by (simp add: INT_MAX_def sint_sbintrunc' signed_take_bit_int_eq_self)

text \<open>A converted group is the number its digits denote, and never the initial \<open>-1\<close>.\<close>

lemma parse_int_Some:
  assumes "list_all isdigit g" "parse_int g = Some a"
  shows "sint a = decimal g \<and> a \<noteq> - 1"
proof -
  from assms have le: "decimal g \<le> INT_MAX" and a: "a = word_of_int (decimal g)"
    by (auto simp: parse_int_def Let_def split: if_splits)
  have s: "sint a = decimal g"
    using sint_word_of_int_fits [OF decimal_nonneg [OF assms(1)] le] a by simp
  have "sint a \<noteq> - 1" using s decimal_nonneg [OF assms(1)] by simp
  then have "a \<noteq> - 1" by auto
  with s show ?thesis by simp
qed

text \<open>A group that is refused denotes a number no \<open>int\<close> holds.\<close>

lemma parse_int_None:
  assumes "parse_int g = None"
  shows "sint (x :: cint) \<noteq> decimal g"
proof -
  from assms have "decimal g > INT_MAX"
    by (auto simp: parse_int_def Let_def split: if_splits)
  moreover have "sint x < 2 ^ 31" using sint_lt [of x] by simp
  ultimately show ?thesis by (simp add: INT_MAX_def)
qed

lemma isSameMajorVersion_match:
  assumes "ver_regex text = Some (g1, g2)" "list_all isdigit g1" "list_all isdigit g2"
  shows "isSameMajorVersion p text
           = (sint (majorVersion p) = decimal g1 \<and> sint (minorVersion p) = decimal g2)"
proof (cases "parse_int g1")
  case None
  then show ?thesis using assms(1) parse_int_None [OF None]
    by (simp add: isSameMajorVersion_def PartialMatch_def)
next
  case (Some a)
  note A = parse_int_Some [OF assms(2) Some]
  show ?thesis
  proof (cases "parse_int g2")
    case None
    then show ?thesis using assms(1) Some parse_int_None [OF None]
      by (simp add: isSameMajorVersion_def PartialMatch_def)
  next
    case (Some b)
    note B = parse_int_Some [OF assms(3) Some]
    have "(a = majorVersion p) = (sint (majorVersion p) = decimal g1)"
      using A by (metis signed_word_eqI)
    moreover have "(b = minorVersion p) = (sint (minorVersion p) = decimal g2)"
      using B by (metis signed_word_eqI)
    ultimately show ?thesis using assms(1) \<open>parse_int g1 = Some a\<close> Some A B
      by (simp add: isSameMajorVersion_def PartialMatch_def)
  qed
qed

lemma isSameMajorVersion_no_match:
  "ver_regex text = None \<Longrightarrow> \<not> isSameMajorVersion p text"
  by (simp add: isSameMajorVersion_def PartialMatch_def)

text \<open>
  C4. For every provider and every version string that starts with digits, a dot, digits
  and a dot, \<open>isSameMajorVersion\<close> is true if and only if the number of the first run of
  digits is the provider's \<open>majorVersion\<close> and the number of the second run is its
  \<open>minorVersion\<close>. (Where a run denotes a number too large for an \<open>int\<close>, nothing is
  extracted for it and the result is false, as no \<open>int\<close> equals that number.) The
  provider's \<open>patchVersion\<close> and \<open>extraVersion\<close> do not change the result.
\<close>

theorem isSameMajorVersion_iff_major_minor:
  assumes "g1 \<noteq> []" and "list_all isdigit g1" and "g2 \<noteq> []" and "list_all isdigit g2"
  shows "isSameMajorVersion p (g1 @ ''.'' @ g2 @ ''.'' @ rest)
           = (sint (majorVersion p) = decimal g1 \<and> sint (minorVersion p) = decimal g2)
         \<and> isSameMajorVersion (p\<lparr> patchVersion := x, extraVersion := y \<rparr>)
               (g1 @ ''.'' @ g2 @ ''.'' @ rest)
           = isSameMajorVersion p (g1 @ ''.'' @ g2 @ ''.'' @ rest)"
  using isSameMajorVersion_match [OF ver_regex_match [OF assms] assms(2) assms(4)]
  by simp

theorem isSameMajorVersion_iff_major_minor_witness:
  "''4'' \<noteq> [] \<and> list_all isdigit ''4'' \<and> ''2'' \<noteq> [] \<and> list_all isdigit ''2''
   \<and> isSameMajorVersion (FallbackVersionInfo\<lparr> majorVersion := 4, minorVersion := 2 \<rparr>) ''4.2.1''
   \<and> \<not> isSameMajorVersion (FallbackVersionInfo\<lparr> majorVersion := 4, minorVersion := 3 \<rparr>) ''4.2.1''"
  using isSameMajorVersion_iff_major_minor
    [of "''4''" "''2''" "FallbackVersionInfo\<lparr> majorVersion := 4, minorVersion := 2 \<rparr>" "''1''"]
    isSameMajorVersion_iff_major_minor
    [of "''4''" "''2''" "FallbackVersionInfo\<lparr> majorVersion := 4, minorVersion := 3 \<rparr>" "''1''"]
  by (simp add: isdigit_def decimal_def digit_val_def)

text \<open>
  C5. For every provider and every version string that does not start with digits, a dot,
  digits and a dot (arbitrary text, or a string such as "10.0" or "4.2" with no dot after
  the minor digits), \<open>isSameMajorVersion\<close> returns false. It raises no error: the function
  is total and its only results are true and false.
\<close>

theorem isSameMajorVersion_unparseable:
  assumes "\<not> (\<exists>g1 g2 rest. otherVersion = g1 @ ''.'' @ g2 @ ''.'' @ rest
                 \<and> g1 \<noteq> [] \<and> list_all isdigit g1 \<and> g2 \<noteq> [] \<and> list_all isdigit g2)"
  shows "isSameMajorVersion p otherVersion = False"
proof -
  have "ver_regex otherVersion = None"
  proof (cases "ver_regex otherVersion")
    case None then show ?thesis .
  next
    case (Some g)
    then obtain g1 g2 where "ver_regex otherVersion = Some (g1, g2)" by (cases g) simp
    from ver_regex_Some [OF this] assms show ?thesis by blast
  qed
  then show ?thesis by (simp add: isSameMajorVersion_no_match)
qed

theorem isSameMajorVersion_unparseable_witness:
  "\<not> (\<exists>g1 g2 rest. ''10.0'' = g1 @ ''.'' @ g2 @ ''.'' @ rest
         \<and> g1 \<noteq> [] \<and> list_all isdigit g1 \<and> g2 \<noteq> [] \<and> list_all isdigit g2)
   \<and> isSameMajorVersion (FallbackVersionInfo\<lparr> majorVersion := 10, minorVersion := 0 \<rparr>) ''10.0''
       = False"
proof -
  have n: "ver_regex ''10.0'' = None"
    by (simp add: ver_regex_def isdigit_def)
  have h: "\<not> (\<exists>g1 g2 rest. ''10.0'' = g1 @ ''.'' @ g2 @ ''.'' @ rest
         \<and> g1 \<noteq> [] \<and> list_all isdigit g1 \<and> g2 \<noteq> [] \<and> list_all isdigit g2)"
  proof
    assume "\<exists>g1 g2 rest. ''10.0'' = g1 @ ''.'' @ g2 @ ''.'' @ rest
         \<and> g1 \<noteq> [] \<and> list_all isdigit g1 \<and> g2 \<noteq> [] \<and> list_all isdigit g2"
    then obtain g1 g2 rest where e: "''10.0'' = g1 @ ''.'' @ g2 @ ''.'' @ rest"
      and d: "g1 \<noteq> []" "list_all isdigit g1" "g2 \<noteq> []" "list_all isdigit g2"
      by blast
    from ver_regex_match [OF d, of rest] e n show False by simp
  qed
  from isSameMajorVersion_unparseable [OF h] h show ?thesis by blast
qed

subsection \<open>The structured report and the log record\<close>

lemma append_env_eq:
  "append_env es env
     = env @ map (\<lambda>e. (key e, BSON_String (value_str e))) (filter inBuildInfo es)"
  by (induction es arbitrary: env) (simp_all add: append_def)

lemma appendBuildInfo_fields:
  "appendBuildInfo cfg p result = result @
     [(''version'', BSON_String (version p)), (''gitVersion'', BSON_String (gitVersion p))]
     @ (if WIN32 cfg then [(''targetMinOS'', BSON_String (targetMinOS p))] else [])
     @ [(''modules'', BSON_Array (map BSON_String (modules p))),
        (''allocator'', BSON_String (allocator p)),
        (''javascriptEngine'', BSON_String (jsEngine p)),
        (''sysInfo'', BSON_String ''deprecated''),
        (''versionArray'',
           BSON_Array [BSON_NumberInt (majorVersion p), BSON_NumberInt (minorVersion p),
                       BSON_NumberInt (patchVersion p), BSON_NumberInt (extraVersion p)]),
        (''openssl'', BSON_Object (opensslInfo cfg)),
        (''buildEnvironment'', BSON_Object (append_env (buildInfo p) [])),
        (''bits'', BSON_NumberInt (sizeof_void_ptr cfg * 8)),
        (''debug'', BSON_Bool (kDebugBuild cfg)),
        (''maxBsonObjectSize'', BSON_NumberInt (BSONObjMaxUserSize cfg))]"
  by (simp add: appendBuildInfo_def append_def Let_def)

text \<open>
  C1. For every provider and build configuration, the fields \<open>appendBuildInfo\<close> writes have
  the keys version, gitVersion, targetMinOS, modules, allocator, javascriptEngine, sysInfo,
  versionArray, openssl, buildEnvironment, bits, debug, maxBsonObjectSize, in this order and
  no others, where targetMinOS is there exactly when the build targets Windows; the value
  of sysInfo is the string "deprecated". The fields follow whatever the builder held
  before.
\<close>

theorem report_keys:
  "map fst (appendBuildInfo cfg p []) =
     [''version'', ''gitVersion''] @ (if WIN32 cfg then [''targetMinOS''] else [])
     @ [''modules'', ''allocator'', ''javascriptEngine'', ''sysInfo'', ''versionArray'',
        ''openssl'', ''buildEnvironment'', ''bits'', ''debug'', ''maxBsonObjectSize'']
   \<and> map_of (appendBuildInfo cfg p []) ''sysInfo'' = Some (BSON_String ''deprecated'')
   \<and> appendBuildInfo cfg p result = result @ appendBuildInfo cfg p []"
  by (simp add: appendBuildInfo_fields)

text \<open>
  C6. For every provider, the \<open>buildEnvironment\<close> document of the report holds one field,
  key to value, for each build-info field with \<open>inBuildInfo\<close> set, in the original order,
  whether or not the value is empty; the \<open>environment\<close> attribute of the log record holds
  one single-field document for each build-info field with \<open>inBuildInfo\<close> set and a value
  that is not empty, in the original order. The second is the first with the fields of
  empty value left out (each remaining field as a document of its own).
\<close>

theorem build_environment_report_and_log:
  "map_of (appendBuildInfo cfg p []) ''buildEnvironment''
     = Some (BSON_Object (map (\<lambda>e. (key e, BSON_String (value_str e)))
                (filter inBuildInfo (buildInfo p))))
   \<and> map_of (attrs (last (logBuildInfo cfg p sink))) ''environment''
     = Some (Attr_ObjSeq (map (\<lambda>e. [(key e, BSON_String (value_str e))])
                (filter (\<lambda>e. inBuildInfo e \<and> value_str e \<noteq> []) (buildInfo p))))
   \<and> map (\<lambda>e. [(key e, BSON_String (value_str e))])
         (filter (\<lambda>e. inBuildInfo e \<and> value_str e \<noteq> []) (buildInfo p))
     = map (\<lambda>kv. [kv]) (filter (\<lambda>kv. snd kv \<noteq> BSON_String [])
         (map (\<lambda>e. (key e, BSON_String (value_str e))) (filter inBuildInfo (buildInfo p))))"
proof -
  have a: "map_of (appendBuildInfo cfg p []) ''buildEnvironment''
     = Some (BSON_Object (map (\<lambda>e. (key e, BSON_String (value_str e)))
                (filter inBuildInfo (buildInfo p))))"
    by (simp add: appendBuildInfo_fields append_env_eq)
  have b: "map_of (attrs (last (logBuildInfo cfg p sink))) ''environment''
     = Some (Attr_ObjSeq (map (\<lambda>e. [(key e, BSON_String (value_str e))])
                (filter (\<lambda>e. inBuildInfo e \<and> value_str e \<noteq> []) (buildInfo p))))"
    by (simp add: logBuildInfo_def LOGV2_def Let_def envFilter_def [abs_def]
        envFormatter_def [abs_def] append_def)
  have c: "map (\<lambda>e. [(key e, BSON_String (value_str e))])
         (filter (\<lambda>e. inBuildInfo e \<and> value_str e \<noteq> []) es)
     = map (\<lambda>kv. [kv]) (filter (\<lambda>kv. snd kv \<noteq> BSON_String [])
         (map (\<lambda>e. (key e, BSON_String (value_str e))) (filter inBuildInfo es)))"
    for es :: "BuildInfoField list"
    by (induction es) simp_all
  show ?thesis using a b c by blast
qed

text \<open>
  With the Windows SChannel backend (and likewise with Apple Secure Transport) the
  \<open>openssl\<close> document of the report has the \<open>running\<close> field alone: there is no
  \<open>compiled\<close> key.
\<close>

theorem openssl_compiled_counterexample:
  "map_of (appendBuildInfo
      \<lparr> WIN32 = True, MONGO_CONFIG_SSL = Some MONGO_CONFIG_SSL_PROVIDER_WINDOWS,
        OPENSSL_VERSION_TEXT = [], SSLeay_version = [], default_prefix = [],
        default_suffix = [], sizeof_void_ptr = 8, kDebugBuild = False,
        BSONObjMaxUserSize = 16777216 \<rparr>
      FallbackVersionInfo []) ''openssl''
    = Some (BSON_Object [(''running'', BSON_String ''Windows SChannel'')])"
  by (simp add: appendBuildInfo_fields opensslInfo_def append_def)

text \<open>
  C7, amended. For every provider and every supported TLS configuration, the \<open>openssl\<close>
  document of the report has a \<open>running\<close> field: "disabled" when TLS is not configured,
  the run-time version text of the library when the backend is OpenSSL, and the name of
  the backend ("Windows SChannel", "Apple Secure Transport") otherwise. It has a
  \<open>compiled\<close> field, after \<open>running\<close>, in the first two cases only: "disabled", and
  the version text the binary was compiled against. With another backend than OpenSSL the
  document has no \<open>compiled\<close> field.
\<close>

theorem openssl_document:
  "map_of (appendBuildInfo cfg p []) ''openssl'' = Some (BSON_Object
     (case MONGO_CONFIG_SSL cfg of
        None \<Rightarrow> [(''running'', BSON_String ''disabled''), (''compiled'', BSON_String ''disabled'')]
      | Some MONGO_CONFIG_SSL_PROVIDER_OPENSSL \<Rightarrow>
          [(''running'',
              BSON_String (default_prefix cfg @ SSLeay_version cfg @ default_suffix cfg)),
           (''compiled'', BSON_String (OPENSSL_VERSION_TEXT cfg))]
      | Some MONGO_CONFIG_SSL_PROVIDER_WINDOWS \<Rightarrow>
          [(''running'', BSON_String ''Windows SChannel'')]
      | Some MONGO_CONFIG_SSL_PROVIDER_APPLE \<Rightarrow>
          [(''running'', BSON_String ''Apple Secure Transport'')]))"
  by (simp add: appendBuildInfo_fields opensslInfo_def openSSLVersion_def append_def
      split: option.splits SSL_PROVIDER.splits)

end
